theory Spec2Isabelle
  imports Main
begin

section \<open>Flaskr: authentication views and the ownership check\<close>

text \<open>
  The development embeds the view functions of \<^verbatim>\<open>flaskr/auth.py\<close> and the function
  \<^verbatim>\<open>get_post\<close> of \<^verbatim>\<open>flaskr/blog.py\<close>. Flask's ambient objects (\<^verbatim>\<open>request\<close>,
  \<^verbatim>\<open>session\<close>, \<^verbatim>\<open>g\<close>, the flashed messages) and the database behind \<^verbatim>\<open>get_db()\<close>
  become fields of an explicit state that every view takes and returns. Exceptions are
  values of the type \<open>fault\<close>; a view returns \<open>fault + (response \<times> app_state)\<close>.
\<close>

subsection \<open>Values, rows and faults\<close>

datatype sqlval = SInt int | SText string

type_synonym row = "(string \<times> sqlval) list"

datatype pyval = PyNone | PyStr string | PyRow row | PyGlobal string

datatype fault =
    NameError string
  | TypeError string
  | IndexError string
  | BadRequestKeyError string
  | IntegrityError
  | OperationalError string
  | ProgrammingError string
  | Abort nat "string option"

datatype response = Redirect string | Render string

subsection \<open>The storage collaborator\<close>

text \<open>
  Modelled from the spec: the module \<^verbatim>\<open>flaskr.db\<close> (\<^verbatim>\<open>get_db\<close>) and the schema are not
  among the sources. The spec pins the interface \<^verbatim>\<open>execute(query, params)\<close>, \<^verbatim>\<open>commit()\<close>,
  an integrity failure on a violated uniqueness constraint, and the schema
  \<^verbatim>\<open>user(id PK, username UNIQUE NOT NULL, password TEXT NOT NULL)\<close>,
  \<^verbatim>\<open>post(id PK, author_id FK->user.id, title, body, created)\<close>.
  The model keeps the two tables as lists of typed records, in insertion order.
\<close>

record user =
  user_id :: int
  user_username :: string
  user_password :: string

record post =
  post_id :: int
  post_author_id :: int
  post_created :: string
  post_title :: string
  post_body :: string

record database =
  users :: "user list"
  posts :: "post list"

text \<open>
  A statement reaches the store as text. The text is split into tokens at blanks, with
  each of the characters \<^verbatim>\<open>( ) , = ? * .\<close> a token of its own; a run of other characters
  is one word, so a keyword counts only where a blank or a punctuation character
  separates it from its neighbours.
\<close>

definition is_punct :: "char \<Rightarrow> bool" where
  "is_punct c = (c \<in> set ''(),=?*.'')"

definition flush :: "string \<Rightarrow> string list" where
  "flush cur = (if cur = [] then [] else [rev cur])"

fun tokens_acc :: "string \<Rightarrow> string \<Rightarrow> string list" where
  "tokens_acc cur [] = flush cur"
| "tokens_acc cur (c # cs) =
     (if c = CHR '' '' then flush cur @ tokens_acc [] cs
      else if is_punct c then flush cur @ [c] # tokens_acc [] cs
      else tokens_acc (c # cur) cs)"

definition tokens :: "string \<Rightarrow> string list" where
  "tokens q = tokens_acc [] q"

text \<open>
  The statements the store answers are the four that the schema and the views call for:
  the insertion of a user, the two look-ups of a user, and the look-up of a post joined
  with its author. Any other text is not a statement.
\<close>

datatype stmt = InsertUser | SelectUserByUsername | SelectUserById | SelectPostById

definition prepare :: "string \<Rightarrow> stmt option" where
  "prepare q =
     (let ts = tokens q in
      if ts = [''INSERT'', ''INTO'', ''user'', ''('', ''username'', '','', ''password'', '')'',
               ''VALUES'', ''('', ''?'', '','', ''?'', '')'']
      then Some InsertUser
      else if ts = [''SELECT'', ''*'', ''FROM'', ''user'', ''WHERE'', ''username'', ''='', ''?'']
      then Some SelectUserByUsername
      else if ts = [''SELECT'', ''*'', ''FROM'', ''user'', ''WHERE'', ''id'', ''='', ''?'']
      then Some SelectUserById
      else if ts = [''SELECT'', ''p'', ''.'', ''id'', '','', ''title'', '','', ''body'', '','',
                    ''created'', '','', ''author_id'', '','', ''username'',
                    ''FROM'', ''post'', ''p'', ''JOIN'', ''user'', ''u'',
                    ''ON'', ''p'', ''.'', ''author_id'', ''='', ''u'', ''.'', ''id'',
                    ''WHERE'', ''p'', ''.'', ''id'', ''='', ''?'']
      then Some SelectPostById
      else None)"

definition user_row :: "user \<Rightarrow> row" where
  "user_row u = [(''id'', SInt (user_id u)), (''username'', SText (user_username u)),
                 (''password'', SText (user_password u))]"

definition post_row :: "post \<Rightarrow> user \<Rightarrow> row" where
  "post_row p u = [(''id'', SInt (post_id p)), (''title'', SText (post_title p)),
                   (''body'', SText (post_body p)), (''created'', SText (post_created p)),
                   (''author_id'', SInt (post_author_id p)),
                   (''username'', SText (user_username u))]"

definition next_id :: "user list \<Rightarrow> int" where
  "next_id us = fold max (map user_id us) 0 + 1"

text \<open>
  Running a statement. The insertion is refused with the integrity failure when the
  username is already stored, and then stores nothing; otherwise the new record gets a
  fresh id and is appended. A value matches a column when it is the same value of the
  same type. \<^verbatim>\<open>commit()\<close> is the identity of this model: an insertion is visible at once.
\<close>

fun run_stmt :: "stmt \<Rightarrow> sqlval list \<Rightarrow> database \<Rightarrow> fault + (row list \<times> database)" where
  "run_stmt InsertUser [SText u, SText h] d =
     (if u \<in> set (map user_username (users d)) then Inl IntegrityError
      else Inr ([], d\<lparr>users := users d @
                  [\<lparr>user_id = next_id (users d), user_username = u, user_password = h\<rparr>]\<rparr>))"
| "run_stmt SelectUserByUsername [v] d =
     Inr (map user_row (filter (\<lambda>u. SText (user_username u) = v) (users d)), d)"
| "run_stmt SelectUserById [v] d =
     Inr (map user_row (filter (\<lambda>u. SInt (user_id u) = v) (users d)), d)"
| "run_stmt SelectPostById [v] d =
     Inr (concat (map (\<lambda>p. map (post_row p)
                               (filter (\<lambda>u. post_author_id p = user_id u) (users d)))
                      (filter (\<lambda>p. SInt (post_id p) = v) (posts d))), d)"
| "run_stmt s params d = Inl (ProgrammingError ''Incorrect bindings supplied.'')"

definition execute :: "string \<Rightarrow> sqlval list \<Rightarrow> database \<Rightarrow> fault + (row list \<times> database)" where
  "execute q params d =
     (case prepare q of
        None \<Rightarrow> Inl (OperationalError ''syntax error'')
      | Some s \<Rightarrow> run_stmt s params d)"

definition fetchone :: "row list \<Rightarrow> row option" where
  "fetchone rows = (case rows of [] \<Rightarrow> None | r # _ \<Rightarrow> Some r)"

subsection \<open>Python values\<close>

definition row_get :: "row \<Rightarrow> string \<Rightarrow> fault + sqlval" where
  "row_get r k = (case map_of r k of None \<Rightarrow> Inl (IndexError k) | Some v \<Rightarrow> Inr v)"

fun subscript :: "pyval \<Rightarrow> string \<Rightarrow> fault + sqlval" where
  "subscript (PyRow r) k = row_get r k"
| "subscript PyNone k = Inl (TypeError ''NoneType object is not subscriptable'')"
| "subscript v k = Inl (TypeError ''object is not subscriptable'')"

definition py_of :: "row option \<Rightarrow> pyval" where
  "py_of r = (case r of None \<Rightarrow> PyNone | Some x \<Rightarrow> PyRow x)"

fun digits :: "nat \<Rightarrow> string" where
  "digits n = (if n < 10 then [''0123456789'' ! n]
               else digits (n div 10) @ [''0123456789'' ! (n mod 10)])"

definition str_int :: "int \<Rightarrow> string" where
  "str_int i = (if i < 0 then CHR ''-'' # digits (nat (- i)) else digits (nat i))"

subsection \<open>The application state\<close>

record request =
  req_method :: string
  form :: "string \<rightharpoonup> string"

record app_state =
  db :: database
  session :: "string \<rightharpoonup> sqlval"
  g_user :: "row option"
  flashes :: "pyval list"

definition flash :: "pyval \<Rightarrow> app_state \<Rightarrow> app_state" where
  "flash message st = st\<lparr>flashes := flashes st @ [message]\<rparr>"

text \<open>
  The names bound at the top level of \<^verbatim>\<open>flaskr/auth.py\<close>: its imports, the blueprint and
  its five functions. A name that a function reads without ever assigning it is looked up
  here (none of the names the views read this way is a built-in).
\<close>

definition auth_globals :: "string list" where
  "auth_globals = [''functools'', ''Blueprint'', ''flash'', ''g'', ''redirect'',
     ''render_template'', ''request'', ''session'', ''url_for'', ''check_password_hash'',
     ''generate_password_hash'', ''get_db'', ''bp'', ''register'', ''login'',
     ''load_logged_in_user'', ''logout'', ''login_required'']"

definition load_global :: "string \<Rightarrow> fault + pyval" where
  "load_global name = (if name \<in> set auth_globals then Inr (PyGlobal name) else Inl (NameError name))"

subsection \<open>\<^verbatim>\<open>flaskr/auth.py\<close>\<close>

text \<open>
  \<^verbatim>\<open>generate_password_hash\<close> and \<^verbatim>\<open>check_password_hash\<close> come from werkzeug; the views
  take them as parameters. \<^verbatim>\<open>request.form[k]\<close> on a missing key is the bad-request fault.
\<close>

definition register ::
  "(string \<Rightarrow> string) \<Rightarrow> request \<Rightarrow> app_state \<Rightarrow> fault + (response \<times> app_state)" where
  "register generate_password_hash request st =
     (if req_method request = ''POST'' then
        (case form request ''username'' of
           None \<Rightarrow> Inl (BadRequestKeyError ''username'')
         | Some username \<Rightarrow>
        (case form request ''password'' of
           None \<Rightarrow> Inl (BadRequestKeyError ''password'')
         | Some password \<Rightarrow>
           let error = (if username = [] then Some ''Username is required.''
                        else if password = [] then Some ''Password is required.''
                        else None)
           in (case error of
                 None \<Rightarrow>
                   (case execute ''INSERT INTO user (username, password) VALUES (?, ?)''
                           [SText username, SText (generate_password_hash password)] (db st) of
                      Inl IntegrityError \<Rightarrow>
                        Inr (Render ''auth/register.html'',
                             flash (PyStr (''User '' @ username @ '' is already registered.'')) st)
                    | Inl e \<Rightarrow> Inl e
                    | Inr (cur, d) \<Rightarrow> Inr (Redirect ''auth.login'', st\<lparr>db := d\<rparr>))
               | Some message \<Rightarrow>
                   Inr (Render ''auth/register.html'', flash (PyStr message) st))))
      else Inr (Render ''auth/register.html'', st))"

text \<open>
  In \<^verbatim>\<open>login\<close> the fetched row is assigned to \<^verbatim>\<open>error\<close>; the name \<^verbatim>\<open>user\<close> is read on
  the next line and assigned nowhere in the function, so it is a global look-up.
\<close>

definition login ::
  "(sqlval \<Rightarrow> string \<Rightarrow> bool) \<Rightarrow> request \<Rightarrow> app_state \<Rightarrow> fault + (response \<times> app_state)" where
  "login check_password_hash request st =
     (if req_method request = ''POST'' then
        (case form request ''username'' of
           None \<Rightarrow> Inl (BadRequestKeyError ''username'')
         | Some username \<Rightarrow>
        (case form request ''password'' of
           None \<Rightarrow> Inl (BadRequestKeyError ''password'')
         | Some password \<Rightarrow>
        (case execute ''SELECT * FROM user WHERE username = ?'' [SText username] (db st) of
           Inl e \<Rightarrow> Inl e
         | Inr (cur, d) \<Rightarrow>
           let error = py_of (fetchone cur) in
           (case load_global ''user'' of
              Inl e \<Rightarrow> Inl e
            | Inr user \<Rightarrow>
              (case (if user = PyNone then Inr (PyStr ''Incorrect username.'')
                     else (case subscript user ''password'' of
                             Inl e \<Rightarrow> Inl e
                           | Inr h \<Rightarrow>
                               if \<not> check_password_hash h password
                               then Inr (PyStr ''Incorrect password.'')
                               else Inr error)) of
                 Inl e \<Rightarrow> Inl e
               | Inr error \<Rightarrow>
                   if error = PyNone then
                     (case subscript user ''id'' of
                        Inl e \<Rightarrow> Inl e
                      | Inr i \<Rightarrow>
                          Inr (Redirect ''index'',
                               st\<lparr>db := d, session := Map.empty(''user_id'' \<mapsto> i)\<rparr>))
                   else Inr (Render ''auth/login.html'', flash error (st\<lparr>db := d\<rparr>)))))))
      else Inr (Render ''auth/login.html'', st))"

definition load_logged_in_user :: "app_state \<Rightarrow> fault + app_state" where
  "load_logged_in_user st =
     (case session st ''user_id'' of
        None \<Rightarrow> Inr (st\<lparr>g_user := None\<rparr>)
      | Some uid \<Rightarrow>
          (case execute ''SELECT * FROM user WHERE id = ?'' [uid] (db st) of
             Inl e \<Rightarrow> Inl e
           | Inr (cur, d) \<Rightarrow> Inr (st\<lparr>db := d, g_user := fetchone cur\<rparr>)))"

definition logout :: "app_state \<Rightarrow> fault + (response \<times> app_state)" where
  "logout st = Inr (Redirect ''index'', st\<lparr>session := Map.empty\<rparr>)"

text \<open>
  \<^verbatim>\<open>login_required(view)\<close> returns \<^verbatim>\<open>wrapped_view\<close>; the keyword arguments are a value
  of any type.
\<close>

definition login_required ::
  "('k \<Rightarrow> app_state \<Rightarrow> fault + (response \<times> app_state)) \<Rightarrow>
   'k \<Rightarrow> app_state \<Rightarrow> fault + (response \<times> app_state)" where
  "login_required view kwargs st =
     (if g_user st = None then Inr (Redirect ''auth.login'', st)
      else view kwargs st)"

subsection \<open>\<^verbatim>\<open>flaskr/blog.py\<close>: the ownership check\<close>

text \<open>
  The body of \<^verbatim>\<open>get_post\<close>, for a given statement text. In
  \<^verbatim>\<open>check_author and post['author_id'] != g.user['id']\<close> the operands are evaluated from
  left to right, and only when \<^verbatim>\<open>check_author\<close> holds.
\<close>

definition get_post_with :: "string \<Rightarrow> int \<Rightarrow> bool \<Rightarrow> app_state \<Rightarrow> fault + row" where
  "get_post_with query ident check_author st =
     (case execute query [SInt ident] (db st) of
        Inl e \<Rightarrow> Inl e
      | Inr (cur, d) \<Rightarrow>
          (case fetchone cur of
             None \<Rightarrow>
               Inl (Abort 404 (Some (''Post id '' @ str_int ident @ '' doesn'' @ [CHR 0x27] @ ''t exist.'')))
           | Some post \<Rightarrow>
               if check_author then
                 (case row_get post ''author_id'' of
                    Inl e \<Rightarrow> Inl e
                  | Inr a \<Rightarrow>
                      (case subscript (py_of (g_user st)) ''id'' of
                         Inl e \<Rightarrow> Inl e
                       | Inr b \<Rightarrow> if a \<noteq> b then Inl (Abort 403 None) else Inr post))
               else Inr post))"

text \<open>
  The statement text of \<^verbatim>\<open>get_post\<close> is three adjacent string literals, which Python
  joins with nothing in between.
\<close>

definition get_post_query :: string where
  "get_post_query =
     ''SELECT p.id, title, body, created, author_id, username'' @
     ''FROM post p JOIN user u ON p.author_id = u.id'' @
     ''WHERE p.id = ?''"

definition get_post :: "int \<Rightarrow> bool \<Rightarrow> app_state \<Rightarrow> fault + row" where
  "get_post ident check_author st = get_post_with get_post_query ident check_author st"

text \<open>
  For comparison, the same three literals with a blank in front of \<^verbatim>\<open>FROM\<close> and of
  \<^verbatim>\<open>WHERE\<close>. No view uses this text; it serves to run the body of \<^verbatim>\<open>get_post\<close> past the
  look-up.
\<close>

definition joined_post_query :: string where
  "joined_post_query =
     ''SELECT p.id, title, body, created, author_id, username'' @
     '' FROM post p JOIN user u ON p.author_id = u.id'' @
     '' WHERE p.id = ?''"

subsection \<open>Sample values\<close>

text \<open>
  Concrete inputs on which the theorems below are evaluated. \<open>toy_hash\<close> and
  \<open>toy_check\<close> stand in for werkzeug's pair of functions at those inputs only; no
  theorem about the views depends on them.
\<close>

definition toy_hash :: "string \<Rightarrow> string" where
  "toy_hash p = ''salted$'' @ rev p"

definition toy_check :: "sqlval \<Rightarrow> string \<Rightarrow> bool" where
  "toy_check h p = (h = SText (toy_hash p))"

definition post_request :: "string \<Rightarrow> string \<Rightarrow> request" where
  "post_request u p = \<lparr>req_method = ''POST'', form = [''username'' \<mapsto> u, ''password'' \<mapsto> p]\<rparr>"

definition empty_state :: app_state where
  "empty_state = \<lparr>db = \<lparr>users = [], posts = []\<rparr>, session = Map.empty, g_user = None, flashes = []\<rparr>"

definition alice :: user where
  "alice = \<lparr>user_id = 1, user_username = ''alice'', user_password = toy_hash ''pw1''\<rparr>"

definition bob :: user where
  "bob = \<lparr>user_id = 2, user_username = ''bob'', user_password = toy_hash ''pw2''\<rparr>"

definition alice_post :: post where
  "alice_post = \<lparr>post_id = 1, post_author_id = 1, post_created = ''2024-01-01 00:00:00'',
                  post_title = ''Hello'', post_body = ''First post''\<rparr>"

definition alice_state :: app_state where
  "alice_state = empty_state\<lparr>db := \<lparr>users = [alice], posts = []\<rparr>\<rparr>"

definition blog_state :: app_state where
  "blog_state = empty_state\<lparr>db := \<lparr>users = [alice, bob], posts = [alice_post]\<rparr>\<rparr>"

definition echo_view :: "string \<Rightarrow> app_state \<Rightarrow> fault + (response \<times> app_state)" where
  "echo_view kwargs st = Inr (Render kwargs, flash (PyStr kwargs) st)"

section \<open>Properties\<close>

subsection \<open>The statements of the views\<close>

lemma tokens_insert_user:
  "prepare ''INSERT INTO user (username, password) VALUES (?, ?)'' = Some InsertUser"
  by (simp add: prepare_def tokens_def flush_def is_punct_def)

lemma tokens_select_username:
  "prepare ''SELECT * FROM user WHERE username = ?'' = Some SelectUserByUsername"
  by (simp add: prepare_def tokens_def flush_def is_punct_def)

lemma tokens_select_id:
  "prepare ''SELECT * FROM user WHERE id = ?'' = Some SelectUserById"
  by (simp add: prepare_def tokens_def flush_def is_punct_def)

lemma prepare_get_post_query: "prepare get_post_query = None"
  by (simp add: prepare_def tokens_def flush_def is_punct_def get_post_query_def)

lemma execute_insert:
  "execute ''INSERT INTO user (username, password) VALUES (?, ?)'' [SText u, SText h] d =
     (if u \<in> set (map user_username (users d)) then Inl IntegrityError
      else Inr ([], d\<lparr>users := users d @
                  [\<lparr>user_id = next_id (users d), user_username = u, user_password = h\<rparr>]\<rparr>))"
  by (simp add: execute_def tokens_insert_user)

lemma execute_select_username:
  "execute ''SELECT * FROM user WHERE username = ?'' [v] d =
     Inr (map user_row (filter (\<lambda>u. SText (user_username u) = v) (users d)), d)"
  by (simp add: execute_def tokens_select_username)

lemma execute_select_id:
  "execute ''SELECT * FROM user WHERE id = ?'' [v] d =
     Inr (map user_row (filter (\<lambda>u. SInt (user_id u) = v) (users d)), d)"
  by (simp add: execute_def tokens_select_id)

lemma execute_get_post_query:
  "execute get_post_query params d = Inl (OperationalError ''syntax error'')"
  by (simp add: execute_def prepare_get_post_query)

lemmas sample_defs = post_request_def empty_state_def alice_state_def blog_state_def alice_def
  bob_def alice_post_def toy_hash_def toy_check_def

subsection \<open>Registration\<close>

text \<open>
  C7. For every registration request that carries both fields, one of them empty: the
  view answers by rendering the registration form again with one flashed message that
  names the empty field (the username when both are empty); the store, the session and
  the identity are as before, so no statement was run.
\<close>

theorem register_empty_field:
  assumes "req_method request = ''POST''"
      and "form request ''username'' = Some username"
      and "form request ''password'' = Some password"
      and "username = [] \<or> password = []"
  shows "\<exists>st'. register generate_password_hash request st = Inr (Render ''auth/register.html'', st') \<and>
           db st' = db st \<and> session st' = session st \<and> g_user st' = g_user st \<and>
           flashes st' = flashes st @
             [PyStr (if username = [] then ''Username is required.'' else ''Password is required.'')]"
  using assms by (auto simp: register_def flash_def)

theorem register_empty_field_witness:
  "req_method (post_request [] ''pw'') = ''POST'' \<and>
   form (post_request [] ''pw'') ''username'' = Some [] \<and>
   form (post_request [] ''pw'') ''password'' = Some ''pw'' \<and>
   register toy_hash (post_request [] ''pw'') alice_state =
     Inr (Render ''auth/register.html'', flash (PyStr ''Username is required.'') alice_state) \<and>
   register toy_hash (post_request ''carol'' []) alice_state =
     Inr (Render ''auth/register.html'', flash (PyStr ''Password is required.'') alice_state) \<and>
   db (flash (PyStr ''Username is required.'') alice_state) = db alice_state"
  using register_empty_field [of "post_request [] ''pw''" "[]" "''pw''" toy_hash alice_state]
        register_empty_field [of "post_request ''carol'' []" "''carol''" "[]" toy_hash alice_state]
  by (simp add: register_def flash_def post_request_def)

text \<open>
  C2, as stated, at a concrete input: \<open>alice\<close> is registered with \<open>pw1\<close>, and the
  second request for \<open>alice\<close> carries the empty password. The second attempt fails
  with the message for the missing password, which is not the message for the duplicate
  username.
\<close>

theorem register_twice_counterexample:
  "register toy_hash (post_request ''alice'' ''pw1'') empty_state = Inr (Redirect ''auth.login'', alice_state) \<and>
   register toy_hash (post_request ''alice'' []) alice_state =
     Inr (Render ''auth/register.html'', flash (PyStr ''Password is required.'') alice_state) \<and>
   flash (PyStr ''Password is required.'') alice_state \<noteq>
     flash (PyStr (''User '' @ ''alice'' @ '' is already registered.'')) alice_state"
  by (simp add: register_def execute_insert next_id_def flash_def sample_defs)

text \<open>
  C2, amended. For every username and every two requests for it: after a successful first
  registration the second attempt fails by rendering the form again with one flashed
  message, the store is the one the first registration left, and it holds exactly one
  record with that username. The message is \<open>User u is already registered.\<close> when
  the second password is not empty, and \<open>Password is required.\<close> when it is.
\<close>

theorem register_twice:
  assumes "req_method req = ''POST''" "form req ''username'' = Some u" "form req ''password'' = Some p"
      and "req_method req' = ''POST''" "form req' ''username'' = Some u" "form req' ''password'' = Some p'"
      and first: "register gph req st = Inr (Redirect ''auth.login'', st')"
  shows "\<exists>st''. register gph' req' st' = Inr (Render ''auth/register.html'', st'') \<and>
           flashes st'' = flashes st' @
             [PyStr (if p' = [] then ''Password is required.''
                     else ''User '' @ u @ '' is already registered.'')] \<and>
           db st'' = db st' \<and> session st'' = session st' \<and>
           length (filter (\<lambda>x. user_username x = u) (users (db st''))) = 1"
proof -
  have ne: "u \<noteq> []" "p \<noteq> []"
    using assms(1-3) first by (auto simp: register_def flash_def split: if_splits)
  have fresh: "u \<notin> set (map user_username (users (db st)))"
    using assms(1-3) first ne
    by (auto simp: register_def flash_def execute_insert split: if_splits)
  have st': "st' = st\<lparr>db := (db st)\<lparr>users := users (db st) @
        [\<lparr>user_id = next_id (users (db st)), user_username = u, user_password = gph p\<rparr>]\<rparr>\<rparr>"
    using assms(1-3) first ne fresh
    by (auto simp: register_def flash_def execute_insert split: if_splits)
  have none: "filter (\<lambda>x. user_username x = u) (users (db st)) = []"
    using fresh by (auto simp: filter_empty_conv)
  have dup: "u \<in> set (map user_username (users (db st')))"
    by (simp add: st')
  have one: "length (filter (\<lambda>x. user_username x = u) (users (db st'))) = 1"
    by (simp add: st' none)
  show ?thesis
  proof (cases "p' = []")
    case True
    then have "register gph' req' st' =
                 Inr (Render ''auth/register.html'', flash (PyStr ''Password is required.'') st')"
      using assms(4-6) ne by (simp add: register_def)
    then show ?thesis using True one by (simp add: flash_def)
  next
    case False
    then have "register gph' req' st' =
                 Inr (Render ''auth/register.html'',
                      flash (PyStr (''User '' @ u @ '' is already registered.'')) st')"
      using assms(4-6) ne dup by (simp add: register_def execute_insert)
    then show ?thesis using False one by (simp add: flash_def)
  qed
qed

theorem register_twice_witness:
  "register toy_hash (post_request ''alice'' ''pw1'') empty_state =
     Inr (Redirect ''auth.login'', alice_state) \<and>
   register toy_hash (post_request ''alice'' ''pw2'') alice_state =
     Inr (Render ''auth/register.html'',
          flash (PyStr ''User alice is already registered.'') alice_state) \<and>
   length (filter (\<lambda>x. user_username x = ''alice'') (users (db alice_state))) = 1"
proof -
  have first: "register toy_hash (post_request ''alice'' ''pw1'') empty_state =
                 Inr (Redirect ''auth.login'', alice_state)"
    by (simp add: register_def execute_insert next_id_def sample_defs)
  have "\<exists>st''. register toy_hash (post_request ''alice'' ''pw2'') alice_state =
                 Inr (Render ''auth/register.html'', st'') \<and>
           flashes st'' = flashes alice_state @
             [PyStr (if ''pw2'' = [] then ''Password is required.''
                     else ''User '' @ ''alice'' @ '' is already registered.'')] \<and>
           db st'' = db alice_state \<and> session st'' = session alice_state \<and>
           length (filter (\<lambda>x. user_username x = ''alice'') (users (db st''))) = 1"
    by (rule register_twice [where req = "post_request ''alice'' ''pw1''" and p = "''pw1''"
             and gph = toy_hash and st = empty_state and p' = "''pw2''", OF _ _ _ _ _ _ first])
       (simp_all add: post_request_def)
  then have "length (filter (\<lambda>x. user_username x = ''alice'') (users (db alice_state))) = 1"
    by auto
  moreover have "register toy_hash (post_request ''alice'' ''pw2'') alice_state =
     Inr (Render ''auth/register.html'',
          flash (PyStr ''User alice is already registered.'') alice_state)"
    by (simp add: register_def execute_insert sample_defs)
  ultimately show ?thesis using first by simp
qed

text \<open>
  The store keeps ids and usernames unique: a successful registration appends one record
  whose id is above every stored id and whose username was not stored, and a failed one
  leaves the store as it was.
\<close>

lemma next_id_fresh: "u \<in> set us \<Longrightarrow> user_id u < next_id us"
proof -
  assume u: "u \<in> set us"
  have eq: "fold max (map user_id us) 0 = Max (set (0 # map user_id us))"
    by (rule Max.set_eq_fold [symmetric])
  have "user_id u \<le> Max (set (0 # map user_id us))"
    using u by (intro Max_ge) simp_all
  then show ?thesis unfolding next_id_def eq by simp
qed

lemma register_keeps_unique:
  assumes "distinct (map user_id (users (db st)))"
      and "distinct (map user_username (users (db st)))"
      and "register gph req st = Inr (resp, st')"
  shows "distinct (map user_id (users (db st'))) \<and> distinct (map user_username (users (db st')))"
proof -
  have "db st' = db st \<or>
        (\<exists>u h. u \<notin> set (map user_username (users (db st))) \<and>
           users (db st') = users (db st) @
             [\<lparr>user_id = next_id (users (db st)), user_username = u, user_password = h\<rparr>])"
    using assms(3)
    by (auto simp: register_def flash_def execute_insert Let_def
             split: if_splits option.splits)
  then show ?thesis
  proof
    assume "db st' = db st"
    then show ?thesis using assms(1,2) by simp
  next
    assume "\<exists>u h. u \<notin> set (map user_username (users (db st))) \<and>
           users (db st') = users (db st) @
             [\<lparr>user_id = next_id (users (db st)), user_username = u, user_password = h\<rparr>]"
    then obtain u h where fresh: "u \<notin> set (map user_username (users (db st)))"
      and app: "users (db st') = users (db st) @
             [\<lparr>user_id = next_id (users (db st)), user_username = u, user_password = h\<rparr>]"
      by blast
    have "next_id (users (db st)) \<notin> set (map user_id (users (db st)))"
      using next_id_fresh [of _ "users (db st)"] by force
    then show ?thesis using assms(1,2) fresh app by simp
  qed
qed

subsection \<open>The identity resolver and logout\<close>

lemma fetchone_user_rows:
  "fetchone (map user_row (filter P us)) = None \<longleftrightarrow> (\<forall>u \<in> set us. \<not> P u)"
proof -
  have "fetchone (map user_row (filter P us)) = None \<longleftrightarrow> filter P us = []"
    by (cases "filter P us") (simp_all add: fetchone_def)
  then show ?thesis by (simp add: filter_empty_conv)
qed

lemma fetchone_user_rows_Some:
  "fetchone (map user_row (filter P us)) = Some r \<Longrightarrow> \<exists>u \<in> set us. P u \<and> r = user_row u"
proof (cases "filter P us")
  case Nil
  then show "fetchone (map user_row (filter P us)) = Some r \<Longrightarrow> ?thesis" by (simp add: fetchone_def)
next
  case (Cons u rest)
  assume "fetchone (map user_row (filter P us)) = Some r"
  with Cons have r: "r = user_row u" by (simp add: fetchone_def)
  have "u \<in> set (filter P us)" using Cons by simp
  then show ?thesis using r by auto
qed

text \<open>
  C6. For every state the resolver returns, leaving session and store as they were, and
  the identity it exposes is either anonymous, when the session holds no \<open>user_id\<close>
  or no stored user has the held id, or the row of a stored user whose id is the session's
  \<open>user_id\<close>.
\<close>

theorem load_logged_in_user_identity:
  "\<exists>st'. load_logged_in_user st = Inr st' \<and> session st' = session st \<and> db st' = db st \<and>
     (case g_user st' of
        None \<Rightarrow> session st ''user_id'' = None \<or>
                (\<forall>u \<in> set (users (db st)). session st ''user_id'' \<noteq> Some (SInt (user_id u)))
      | Some r \<Rightarrow> \<exists>u \<in> set (users (db st)). r = user_row u \<and>
                   session st ''user_id'' = Some (SInt (user_id u)) \<and>
                   row_get r ''id'' = Inr (SInt (user_id u)))"
proof (cases "session st ''user_id''")
  case None
  then show ?thesis by (simp add: load_logged_in_user_def)
next
  case (Some v)
  let ?rows = "map user_row (filter (\<lambda>u. SInt (user_id u) = v) (users (db st)))"
  have run: "load_logged_in_user st = Inr (st\<lparr>g_user := fetchone ?rows\<rparr>)"
    using Some by (simp add: load_logged_in_user_def execute_select_id)
  show ?thesis
  proof (cases "fetchone ?rows")
    case None
    then have "\<forall>u \<in> set (users (db st)). SInt (user_id u) \<noteq> v"
      by (simp add: fetchone_user_rows)
    then show ?thesis using run None Some by auto
  next
    case (Some r)
    from fetchone_user_rows_Some [OF Some]
    obtain u where "u \<in> set (users (db st))" "SInt (user_id u) = v" "r = user_row u" by blast
    then show ?thesis using run Some \<open>session st ''user_id'' = Some v\<close>
      by (auto simp: row_get_def user_row_def)
  qed
qed

theorem load_logged_in_user_identity_witness:
  "load_logged_in_user (alice_state\<lparr>session := [''user_id'' \<mapsto> SInt 1]\<rparr>) =
     Inr (alice_state\<lparr>session := [''user_id'' \<mapsto> SInt 1], g_user := Some (user_row alice)\<rparr>) \<and>
   alice \<in> set (users (db alice_state)) \<and> user_id alice = 1 \<and>
   load_logged_in_user (alice_state\<lparr>session := [''user_id'' \<mapsto> SInt 5]\<rparr>) =
     Inr (alice_state\<lparr>session := [''user_id'' \<mapsto> SInt 5], g_user := None\<rparr>)"
  using load_logged_in_user_identity [of "alice_state\<lparr>session := [''user_id'' \<mapsto> SInt 1]\<rparr>"]
        load_logged_in_user_identity [of "alice_state\<lparr>session := [''user_id'' \<mapsto> SInt 5]\<rparr>"]
  by (simp add: load_logged_in_user_def execute_select_id fetchone_def alice_state_def
        empty_state_def alice_def)

text \<open>
  C8. For every state, logout empties the session and redirects to the index, the store
  is untouched, and the resolver run on the resulting state exposes the anonymous
  identity; when the session was already empty the state is unchanged.
\<close>

theorem logout_clears_session:
  "\<exists>st'. logout st = Inr (Redirect ''index'', st') \<and> session st' = Map.empty \<and> db st' = db st \<and>
     (\<exists>st''. load_logged_in_user st' = Inr st'' \<and> g_user st'' = None) \<and>
     (session st = Map.empty \<longrightarrow> st' = st)"
  by (simp add: logout_def load_logged_in_user_def)

theorem logout_clears_session_witness:
  "logout (alice_state\<lparr>session := [''user_id'' \<mapsto> SInt 1]\<rparr>) = Inr (Redirect ''index'', alice_state) \<and>
   load_logged_in_user alice_state = Inr alice_state \<and> g_user alice_state = None \<and>
   session empty_state = Map.empty \<and>
   logout empty_state = Inr (Redirect ''index'', empty_state)"
  using logout_clears_session [of "alice_state\<lparr>session := [''user_id'' \<mapsto> SInt 1]\<rparr>"]
        logout_clears_session [of empty_state]
  by (simp add: logout_def load_logged_in_user_def alice_state_def empty_state_def)

subsection \<open>The login-required guard\<close>

text \<open>
  C4. For every wrapped view, arguments and state: when the resolved identity is
  anonymous (\<^verbatim>\<open>g.user is None\<close>) the guard answers with a redirect to the login entry
  point and leaves the state as it was, whatever the view is, so the view is not run;
  when the identity is authenticated the guard's result is the view's result on the same
  arguments and state.
\<close>

theorem login_required_guard:
  "(g_user st = None \<longrightarrow> login_required view kwargs st = Inr (Redirect ''auth.login'', st)) \<and>
   (g_user st \<noteq> None \<longrightarrow> login_required view kwargs st = view kwargs st)"
  by (simp add: login_required_def)

theorem login_required_guard_witness:
  "g_user empty_state = None \<and>
   login_required echo_view ''x'' empty_state = Inr (Redirect ''auth.login'', empty_state) \<and>
   g_user (empty_state\<lparr>g_user := Some (user_row alice)\<rparr>) \<noteq> None \<and>
   login_required echo_view ''x'' (empty_state\<lparr>g_user := Some (user_row alice)\<rparr>) =
     Inr (Render ''x'', flash (PyStr ''x'') (empty_state\<lparr>g_user := Some (user_row alice)\<rparr>))"
  using login_required_guard [of empty_state echo_view "''x''"]
        login_required_guard [of "empty_state\<lparr>g_user := Some (user_row alice)\<rparr>" echo_view "''x''"]
  by (simp add: empty_state_def echo_view_def)

subsection \<open>Login\<close>

lemma login_post_faults:
  assumes "req_method request = ''POST''"
      and "form request ''username'' = Some username"
      and "form request ''password'' = Some password"
  shows "login check_password_hash request st = Inl (NameError ''user'')"
  using assms by (simp add: login_def execute_select_username load_global_def auth_globals_def)

text \<open>
  C1. The claim asks that a login with an unknown username, and a login with a known
  username and a wrong password, both end in the one invalid-credentials outcome. On the
  code both requests end in the fault \<open>NameError ''user''\<close>: with \<open>alice\<close> stored,
  the request for \<open>bob\<close> and the request for \<open>alice\<close> with a wrong password raise
  before either message is chosen.
\<close>

theorem login_invalid_credentials_fault:
  "login toy_check (post_request ''bob'' ''pw1'') alice_state = Inl (NameError ''user'') \<and>
   login toy_check (post_request ''alice'' ''wrong'') alice_state = Inl (NameError ''user'')"
  by (simp add: login_post_faults post_request_def)

text \<open>
  C5. The claim asks that a login with valid credentials clears the session and stores
  the user's id in it. On the code the request of \<open>alice\<close> with her password, made
  while the session holds the id of \<open>bob\<close>, ends in the fault \<open>NameError ''user''\<close>;
  no session is established.
\<close>

theorem login_valid_credentials_fault:
  "toy_check (SText (user_password alice)) ''pw1'' \<and>
   login toy_check (post_request ''alice'' ''pw1'')
     (blog_state\<lparr>session := [''user_id'' \<mapsto> SInt 2]\<rparr>) = Inl (NameError ''user'')"
  by (simp add: login_post_faults post_request_def toy_check_def alice_def)

subsection \<open>The ownership check\<close>

lemma get_post_faults:
  "get_post ident check_author st = Inl (OperationalError ''syntax error'')"
  by (simp add: get_post_def get_post_with_def execute_get_post_query)

text \<open>
  C3. The claim asks for the not-found failure on a missing post, the forbidden failure
  on another author's post, and the post itself for its author or when the comparison is
  switched off. On the code each of these calls ends in the store's fault on the
  statement text: post 7 is missing, post 1 belongs to \<open>alice\<close>, and the identity is
  \<open>bob\<close> in the second call and \<open>alice\<close> in the third.
\<close>

theorem get_post_statement_fault:
  "get_post 7 True (blog_state\<lparr>g_user := Some (user_row alice)\<rparr>) =
     Inl (OperationalError ''syntax error'') \<and>
   get_post 1 True (blog_state\<lparr>g_user := Some (user_row bob)\<rparr>) =
     Inl (OperationalError ''syntax error'') \<and>
   get_post 1 True (blog_state\<lparr>g_user := Some (user_row alice)\<rparr>) =
     Inl (OperationalError ''syntax error'') \<and>
   get_post 1 False (blog_state\<lparr>g_user := Some (user_row bob)\<rparr>) =
     Inl (OperationalError ''syntax error'')"
  by (simp add: get_post_faults)

text \<open>
  C10. The claim asks that, for an existing post and an anonymous identity, the call
  with the comparison switched on faults on subscripting the absent identity. On the
  code the call for post 1 with \<^verbatim>\<open>g.user\<close> being \<^verbatim>\<open>None\<close> ends earlier, in the store's
  fault on the statement text.
\<close>

theorem get_post_anonymous_fault:
  "g_user (blog_state\<lparr>g_user := None\<rparr>) = None \<and>
   get_post 1 True (blog_state\<lparr>g_user := None\<rparr>) = Inl (OperationalError ''syntax error'')"
  by (simp add: get_post_faults)

text \<open>
  With the blanks in place the statement is the look-up of a post, and the body of
  \<^verbatim>\<open>get_post\<close> then answers as C3 and C10 describe: 404 with the id in the message,
  403 for another author, the row for the author or without the comparison, and the
  fault on the subscript of the absent identity.
\<close>

lemma prepare_joined_post_query: "prepare joined_post_query = Some SelectPostById"
  by (simp add: prepare_def tokens_def flush_def is_punct_def joined_post_query_def)

lemma get_post_with_joined:
  "get_post_with joined_post_query 7 True (blog_state\<lparr>g_user := Some (user_row alice)\<rparr>) =
     Inl (Abort 404 (Some (''Post id 7 doesn'' @ [CHR 0x27] @ ''t exist.'')))"
  "get_post_with joined_post_query 1 True (blog_state\<lparr>g_user := Some (user_row bob)\<rparr>) =
     Inl (Abort 403 None)"
  "get_post_with joined_post_query 1 True (blog_state\<lparr>g_user := Some (user_row alice)\<rparr>) =
     Inr (post_row alice_post alice)"
  "get_post_with joined_post_query 1 False (blog_state\<lparr>g_user := Some (user_row bob)\<rparr>) =
     Inr (post_row alice_post alice)"
  "get_post_with joined_post_query 1 True (blog_state\<lparr>g_user := None\<rparr>) =
     Inl (TypeError ''NoneType object is not subscriptable'')"
  by (simp_all add: get_post_with_def execute_def prepare_joined_post_query fetchone_def
        row_get_def post_row_def user_row_def py_of_def str_int_def sample_defs)

end
